theory Spec2Isabelle
  imports Complex_Main
begin

section \<open>RecipeGem widget: data model\<close>

text \<open>
  The widget exists in two source files: \<^verbatim>\<open>web/src/Widget.tsx\<close> and a second version of
  the same component (called the carousel variant below). Both declare the same
  \<^verbatim>\<open>Recipe\<close> and \<^verbatim>\<open>WidgetState\<close> types; their \<^verbatim>\<open>ToolOutput\<close> types differ only in the
  type of \<^verbatim>\<open>cuisine\<close> (\<^verbatim>\<open>string[]\<close> in Widget.tsx, \<^verbatim>\<open>string\<close> in the carousel variant),
  which is the type parameter \<open>'c\<close> here. The carousel variant calls \<^verbatim>\<open>useEmblaCarousel\<close>,
  \<^verbatim>\<open>React.useState\<close> and \<^verbatim>\<open>React.useEffect\<close> at module scope, outside any component, so
  its carousel controller is not embedded; of that file only the text of
  \<^verbatim>\<open>selectRecipe\<close> is, next to the one of Widget.tsx.

  Field names carry a suffix naming their record (\<open>_r\<close> Recipe, \<open>_out\<close> ToolOutput,
  \<open>_st\<close> WidgetState, \<open>_arg\<close> the argument object of the tool call, \<open>_af\<close> applied
  filters), since the source uses \<^verbatim>\<open>cuisine\<close>, \<^verbatim>\<open>sort\<close>, \<^verbatim>\<open>selected_id\<close> in several
  types and \<^verbatim>\<open>results\<close>, \<^verbatim>\<open>selected\<close> both as fields and as the derived constants.
\<close>

text \<open>A JavaScript value of type \<^verbatim>\<open>T | null | undefined\<close>.\<close>

datatype 'a nullable = Undefined | Null | Value 'a

text \<open>\<^verbatim>\<open>"duration" | "complexity"\<close>\<close>

datatype sort_mode = Duration | Complexity

record Recipe =
  id_r :: string
  imageUrl_r :: string
  cuisine_r :: "string list"
  title_r :: string
  affordability_r :: string
  complexity_r :: string
  duration_r :: real
  ingredients_r :: "string list"
  steps_r :: "string list"
  dietaryLabels_r :: "string list"

record applied_filters =
  min_duration_af :: "real option"
  sort_af :: "sort_mode option"

text \<open>
  \<^verbatim>\<open>Partial<ToolOutput>\<close>: every field may be undefined (\<open>None\<close>); \<^verbatim>\<open>selected\<close> may
  also be null.
\<close>

record 'c ToolOutput =
  cuisine_out :: "'c option"
  results_out :: "Recipe list option"
  selected_out :: "Recipe nullable"
  applied_filters_out :: "applied_filters option"

record WidgetState =
  cuisine_st :: "string option"
  min_duration_st :: "real option"
  sort_st :: "sort_mode option"
  selected_id_st :: "string nullable"

text \<open>\<^verbatim>\<open>(useToolOutput() ?? {}) as Partial<ToolOutput>\<close>: no payload yet is the empty object.\<close>

definition emptyToolOutput :: "'c ToolOutput" where
  "emptyToolOutput =
     \<lparr>cuisine_out = None, results_out = None, selected_out = Undefined,
      applied_filters_out = None\<rparr>"

definition toolOutput_of :: "'c ToolOutput option \<Rightarrow> 'c ToolOutput" where
  "toolOutput_of p = (case p of None \<Rightarrow> emptyToolOutput | Some out \<Rightarrow> out)"

section \<open>State reconciliation (the same text in both files)\<close>

text \<open>\<^verbatim>\<open>const results: Recipe[] = toolOutput.results ?? [];\<close>\<close>

definition results :: "'c ToolOutput \<Rightarrow> Recipe list" where
  "results toolOutput = (case results_out toolOutput of None \<Rightarrow> [] | Some rs \<Rightarrow> rs)"

text \<open>Truthiness of \<^verbatim>\<open>state.selected_id\<close>: undefined, null and the empty string are falsy.\<close>

fun truthy :: "string nullable \<Rightarrow> bool" where
  "truthy Undefined = False"
| "truthy Null = False"
| "truthy (Value s) = (s \<noteq> [])"

text \<open>
  \<^verbatim>\<open>const selected: Recipe | null =
    (toolOutput.selected as Recipe | null | undefined) ??
    (state.selected_id ? results.find((s) => s.id === state.selected_id) ?? null : null);\<close>
  The result \<open>None\<close> is null.
\<close>

definition selected :: "'c ToolOutput \<Rightarrow> WidgetState \<Rightarrow> Recipe option" where
  "selected toolOutput state =
     (case selected_out toolOutput of
        Value r \<Rightarrow> Some r
      | _ \<Rightarrow>
          (if truthy (selected_id_st state)
           then find (\<lambda>s. Value (id_r s) = selected_id_st state) (results toolOutput)
           else None))"

section \<open>String operations of the JavaScript runtime used by the widget\<close>

text \<open>\<^verbatim>\<open>Array.prototype.join(sep)\<close> on an array of strings.\<close>

fun join :: "string \<Rightarrow> string list \<Rightarrow> string" where
  "join sep [] = []"
| "join sep [x] = x"
| "join sep (x # y # ys) = x @ sep @ join sep (y # ys)"

text \<open>
  \<^verbatim>\<open>String.prototype.split(sep)\<close> for a one-character separator: \<^verbatim>\<open>"".split(",")\<close> is
  \<^verbatim>\<open>[""]\<close>, \<^verbatim>\<open>"a,,b".split(",")\<close> is \<^verbatim>\<open>["a", "", "b"]\<close>.
\<close>

fun split_str :: "char \<Rightarrow> string \<Rightarrow> string list" where
  "split_str sep [] = [[]]"
| "split_str sep (c # cs) =
     (if c = sep then [] # split_str sep cs
      else (case split_str sep cs of
              [] \<Rightarrow> [[c]]
            | x # xs \<Rightarrow> (c # x) # xs))"

text \<open>
  The white space and line terminators that \<^verbatim>\<open>String.prototype.trim\<close> removes, among
  the code units 0 to 255 that \<^typ>\<open>char\<close> holds: TAB, LF, VT, FF, CR, SP, NBSP.
\<close>

definition isWhiteSpace :: "char \<Rightarrow> bool" where
  "isWhiteSpace c \<longleftrightarrow>
     c = CHR 0x09 \<or> c = CHR 0x0A \<or> c = CHR 0x0B \<or> c = CHR 0x0C \<or> c = CHR 0x0D \<or>
     c = CHR 0x20 \<or> c = CHR 0xA0"

definition trim :: "string \<Rightarrow> string" where
  "trim s = rev (dropWhile isWhiteSpace (rev (dropWhile isWhiteSpace s)))"

section \<open>Header\<close>

text \<open>
  Widget.tsx:
  \<^verbatim>\<open>const cuisineArr = toolOutput.cuisine ?? [];
  return cuisineArr.length ? `Recipes in ${cuisineArr.join(", ")}` : "RecipeGem";\<close>
\<close>

definition header :: "string list ToolOutput \<Rightarrow> string" where
  "header toolOutput =
     (let cuisineArr = (case cuisine_out toolOutput of None \<Rightarrow> [] | Some c \<Rightarrow> c)
      in if length cuisineArr \<noteq> 0 then ''Recipes in '' @ join '', '' cuisineArr
         else ''RecipeGem'')"

section \<open>Selection coordinator\<close>

text \<open>The argument object of the \<^verbatim>\<open>explore_recipe\<close> call.\<close>

record 'c CallArgs =
  cuisine_arg :: 'c
  min_duration_arg :: "real option"
  sort_arg :: "sort_mode option"
  selected_id_arg :: string

text \<open>
  How the promise returned by the host's \<^verbatim>\<open>callTool\<close> settles; a call that throws is
  \<open>Rejected\<close> as well, since it is awaited inside an async function.
\<close>

datatype settle = Fulfilled | Rejected

text \<open>
  \<^verbatim>\<open>window.openai\<close>: \<open>None\<close> when the host object is missing; \<open>callTool_oa\<close> is \<open>None\<close>
  when the member is not a function.
\<close>

record 'c OpenAi =
  callTool_oa :: "(string \<Rightarrow> 'c CallArgs \<Rightarrow> settle) option"

text \<open>
  \<^verbatim>\<open>const canCallTool = typeof window.openai?.callTool === "function";\<close>
  This constant is computed in the body of the component, that is, from the host object as
  it is when the component renders.
\<close>

definition canCallTool :: "'c OpenAi option \<Rightarrow> bool" where
  "canCallTool window_openai =
     (case window_openai of None \<Rightarrow> False | Some oa \<Rightarrow> callTool_oa oa \<noteq> None)"

text \<open>
  The effects of the coordinator, in the order in which they happen: the persisted widget
  state and the log of state updates and dispatched tool calls, oldest first.
\<close>

datatype 'c event = StateSet WidgetState | ToolCalled string "'c CallArgs"

record 'c World =
  widgetState :: WidgetState
  trace :: "'c event list"

text \<open>How the promise of the async function \<^verbatim>\<open>selectRecipe\<close> settles.\<close>

datatype completion = Returned | Thrown

text \<open>
  Modelled from the spec: the setter returned by \<^verbatim>\<open>useWidgetState\<close> (module \<^verbatim>\<open>./openai\<close>
  is not among the sources) replaces PersistedState by its argument when it is called.
\<close>

definition setState :: "WidgetState \<Rightarrow> 'c World \<Rightarrow> 'c World" where
  "setState s w = w\<lparr>widgetState := s, trace := trace w @ [StateSet s]\<rparr>"

text \<open>
  \<^verbatim>\<open>await window.openai.callTool!(name, args)\<close>: the call is dispatched, then the function
  resumes when the promise settles; a rejection is not caught. Reading \<^verbatim>\<open>callTool\<close> of a
  missing host object and calling a member that is not a function (the \<^verbatim>\<open>!\<close> is erased by
  the compiler) throw a TypeError, and nothing is dispatched.
\<close>

definition await_callTool ::
  "'c OpenAi option \<Rightarrow> string \<Rightarrow> 'c CallArgs \<Rightarrow> 'c World \<Rightarrow> 'c World \<times> completion" where
  "await_callTool window_openai name args w =
     (case window_openai of
        None \<Rightarrow> (w, Thrown)
      | Some oa \<Rightarrow>
          (case callTool_oa oa of
             None \<Rightarrow> (w, Thrown)
           | Some f \<Rightarrow>
               (w\<lparr>trace := trace w @ [ToolCalled name args]\<rparr>,
                case f name args of Fulfilled \<Rightarrow> Returned | Rejected \<Rightarrow> Thrown)))"

text \<open>
  Widget.tsx:
  \<^verbatim>\<open>async function selectRecipe(id: string) {
    const cuisineList = toolOutput.cuisine ??
      (state.cuisine ? state.cuisine.split(",").map(s => s.trim()).filter(Boolean) : []);
    setState({ ...state, selected_id: id });
    if (canCallTool) {
      await window.openai.callTool!("explore_recipe", {
        cuisine: cuisineList, min_duration: state.min_duration,
        sort: state.sort, selected_id: id });
    }
  }\<close>
  The handler closes over \<open>toolOutput\<close>, \<open>state\<close> and \<open>canCallTool\<close>, the values of the
  render in which it was created; \<open>canCallTool\<close> is the first argument here. The handler
  reads \<^verbatim>\<open>window.openai.callTool\<close> again when it runs: \<open>window_openai\<close> is the host
  object at that moment, which need not be the one of the render.
\<close>

definition selectRecipe ::
  "bool \<Rightarrow> string list OpenAi option \<Rightarrow> string list ToolOutput \<Rightarrow> WidgetState \<Rightarrow> string \<Rightarrow>
   string list World \<Rightarrow> string list World \<times> completion" where
  "selectRecipe canCallTool_rendered window_openai toolOutput state ident w =
     (let cuisineList =
            (case cuisine_out toolOutput of
               Some c \<Rightarrow> c
             | None \<Rightarrow>
                 (case cuisine_st state of
                    None \<Rightarrow> []
                  | Some c \<Rightarrow>
                      if c \<noteq> []
                      then filter (\<lambda>s. s \<noteq> []) (map trim (split_str (CHR '','') c))
                      else []));
          w1 = setState (state\<lparr>selected_id_st := Value ident\<rparr>) w
      in if canCallTool_rendered
         then await_callTool window_openai ''explore_recipe''
                \<lparr>cuisine_arg = cuisineList, min_duration_arg = min_duration_st state,
                 sort_arg = sort_st state, selected_id_arg = ident\<rparr> w1
         else (w1, Returned))"

text \<open>
  Carousel variant:
  \<^verbatim>\<open>async function selectRecipe(id: string) {
    const cuisine = (toolOutput.cuisine ?? state.cuisine ?? "").trim();
    const min_duration = state.min_duration;
    const sort = state.sort;
    setState({ ...state, selected_id: id });
    if (canCallTool) {
      await window.openai.callTool!("explore_recipe",
        { cuisine, min_duration, sort, selected_id: id });
    }
  }\<close>
\<close>

definition selectRecipe_carousel ::
  "bool \<Rightarrow> string OpenAi option \<Rightarrow> string ToolOutput \<Rightarrow> WidgetState \<Rightarrow> string \<Rightarrow>
   string World \<Rightarrow> string World \<times> completion" where
  "selectRecipe_carousel canCallTool_rendered window_openai toolOutput state ident w =
     (let cuisine =
            trim (case cuisine_out toolOutput of
                    Some c \<Rightarrow> c
                  | None \<Rightarrow> (case cuisine_st state of Some c \<Rightarrow> c | None \<Rightarrow> []));
          min_duration = min_duration_st state;
          sort = sort_st state;
          w1 = setState (state\<lparr>selected_id_st := Value ident\<rparr>) w
      in if canCallTool_rendered
         then await_callTool window_openai ''explore_recipe''
                \<lparr>cuisine_arg = cuisine, min_duration_arg = min_duration,
                 sort_arg = sort, selected_id_arg = ident\<rparr> w1
         else (w1, Returned))"

section \<open>Initial persisted state\<close>

text \<open>
  The fields of \<^verbatim>\<open>useToolInput() ?? {}\<close> that the widget reads, and the initializer passed
  to \<^verbatim>\<open>useWidgetState\<close>:
  \<^verbatim>\<open>{ cuisine: toolInput.cuisine, min_duration: toolInput.min_duration,
    sort: toolInput.sort, selected_id: null }\<close>
\<close>

record ToolInput =
  cuisine_in :: "string option"
  min_duration_in :: "real option"
  sort_in :: "sort_mode option"

definition initialState :: "ToolInput \<Rightarrow> WidgetState" where
  "initialState toolInput =
     \<lparr>cuisine_st = cuisine_in toolInput, min_duration_st = min_duration_in toolInput,
      sort_st = sort_in toolInput, selected_id_st = Null\<rparr>"

section \<open>Observing the trace\<close>

text \<open>The tool calls of a trace, oldest first: tool name and argument object.\<close>

fun dispatched :: "'c event list \<Rightarrow> (string \<times> 'c CallArgs) list" where
  "dispatched [] = []"
| "dispatched (StateSet s # es) = dispatched es"
| "dispatched (ToolCalled name args # es) = (name, args) # dispatched es"

section \<open>Concrete inputs for the examples\<close>

text \<open>
  A recipe with a given identifier and title, a payload with given cuisine, results and
  authoritative selection, the persisted state seeded from the call parameters
  \<^verbatim>\<open>{cuisine: "Italian", sort: "duration"}\<close>, a payload with the two results
  \<^verbatim>\<open>r1\<close> and \<^verbatim>\<open>r2\<close> and \<^verbatim>\<open>selected: null\<close>, a world with an empty trace, and host
  objects whose \<^verbatim>\<open>callTool\<close> always rejects or always fulfils.
\<close>

definition recipe_with :: "string \<Rightarrow> string \<Rightarrow> Recipe" where
  "recipe_with ident title =
     \<lparr>id_r = ident, imageUrl_r = [], cuisine_r = [''Italian''], title_r = title,
      affordability_r = ''affordable'', complexity_r = ''simple'', duration_r = 20,
      ingredients_r = [], steps_r = [], dietaryLabels_r = []\<rparr>"

definition payload_with :: "'c option \<Rightarrow> Recipe list \<Rightarrow> Recipe nullable \<Rightarrow> 'c ToolOutput" where
  "payload_with c rs sel =
     \<lparr>cuisine_out = c, results_out = Some rs, selected_out = sel,
      applied_filters_out = Some \<lparr>min_duration_af = None, sort_af = Some Duration\<rparr>\<rparr>"

definition italian_seed :: WidgetState where
  "italian_seed =
     initialState \<lparr>cuisine_in = Some ''Italian'', min_duration_in = None, sort_in = Some Duration\<rparr>"

definition world0 :: "WidgetState \<Rightarrow> 'c World" where
  "world0 s = \<lparr>widgetState = s, trace = []\<rparr>"

definition two_results :: "'c option \<Rightarrow> 'c ToolOutput" where
  "two_results c = payload_with c [recipe_with ''r1'' ''A'', recipe_with ''r2'' ''B''] Null"

definition rejecting_host :: "'c OpenAi option" where
  "rejecting_host = Some \<lparr>callTool_oa = Some (\<lambda>name args. Rejected)\<rparr>"

definition accepting_host :: "'c OpenAi option" where
  "accepting_host = Some \<lparr>callTool_oa = Some (\<lambda>name args. Fulfilled)\<rparr>"


section \<open>Helper lemmas\<close>

lemma dispatched_append: "dispatched (xs @ ys) = dispatched xs @ dispatched ys"
  by (induction xs rule: dispatched.induct) simp_all

lemma find_None_id: "(find (\<lambda>s. id_r s = ident) rs = None) = (\<forall>r \<in> set rs. id_r r \<noteq> ident)"
  by (auto simp: find_None_iff)

lemma find_Some_id: "find (\<lambda>s. id_r s = ident) rs = Some r \<Longrightarrow> r \<in> set rs \<and> id_r r = ident"
  by (induction rs) (auto split: if_splits)

lemma find_distinct_id:
  "distinct (map id_r rs) \<Longrightarrow> r \<in> set rs \<Longrightarrow> id_r r = ident \<Longrightarrow>
   find (\<lambda>s. id_r s = ident) rs = Some r"
proof (induction rs)
  case Nil
  then show ?case by simp
next
  case (Cons a rs)
  show ?case
  proof (cases "id_r a = ident")
    case True
    with Cons.prems have "r = a" by (auto simp: image_iff)
    with True show ?thesis by simp
  next
    case False
    with Cons show ?thesis by auto
  qed
qed

lemma selected_fallback:
  assumes "selected_out toolOutput = Undefined \<or> selected_out toolOutput = Null"
    and "selected_id_st state = Value ident" and "ident \<noteq> []"
  shows "selected toolOutput state = find (\<lambda>s. id_r s = ident) (results toolOutput)"
  using assms by (auto simp: selected_def)

lemma trim_has_nonspace:
  assumes "trim s \<noteq> []"
  shows "\<exists>c \<in> set (trim s). \<not> isWhiteSpace c"
proof -
  let ?t = "dropWhile isWhiteSpace (rev (dropWhile isWhiteSpace s))"
  from assms have ne: "?t \<noteq> []" by (simp add: trim_def)
  then have "\<not> isWhiteSpace (hd ?t)" by (rule hd_dropWhile)
  moreover from ne have "hd ?t \<in> set ?t" by (rule hd_in_set)
  ultimately show ?thesis unfolding trim_def by (metis set_rev)
qed

lemma cuisineList_entries:
  assumes "s \<in> set (filter (\<lambda>s. s \<noteq> []) (map trim (split_str sep c)))"
  shows "s \<noteq> [] \<and> (\<exists>ch \<in> set s. \<not> isWhiteSpace ch)"
proof -
  from assms obtain x where "s = trim x" and "s \<noteq> []" by auto
  then show ?thesis using trim_has_nonspace [of x] by simp
qed

lemma trim_Nil: "trim [] = []"
  by (simp add: trim_def)

lemma canCallTool_cases:
  "canCallTool window_openai \<Longrightarrow> \<exists>oa f. window_openai = Some oa \<and> callTool_oa oa = Some f"
  by (auto simp: canCallTool_def split: option.splits)

lemma await_callTool_trace:
  "canCallTool window_openai \<Longrightarrow>
   trace (fst (await_callTool window_openai name args w)) = trace w @ [ToolCalled name args] \<and>
   widgetState (fst (await_callTool window_openai name args w)) = widgetState w"
  by (auto simp: await_callTool_def dest!: canCallTool_cases)

lemma await_callTool_absent:
  "\<not> canCallTool window_openai \<Longrightarrow> await_callTool window_openai name args w = (w, Thrown)"
  by (auto simp: await_callTool_def canCallTool_def split: option.splits)

lemma selectRecipe_no_tool:
  "selectRecipe False window_openai toolOutput state ident w =
     (setState (state\<lparr>selected_id_st := Value ident\<rparr>) w, Returned)"
  by (simp add: selectRecipe_def Let_def)

lemma selectRecipe_tool_gone:
  "\<not> canCallTool window_openai \<Longrightarrow>
   selectRecipe True window_openai toolOutput state ident w =
     (setState (state\<lparr>selected_id_st := Value ident\<rparr>) w, Thrown)"
  by (simp add: selectRecipe_def Let_def await_callTool_absent)

lemma selectRecipe_with_tool:
  assumes "canCallTool window_openai"
  shows "trace (fst (selectRecipe True window_openai toolOutput state ident w)) =
           trace w @ [StateSet (state\<lparr>selected_id_st := Value ident\<rparr>),
             ToolCalled ''explore_recipe''
               \<lparr>cuisine_arg =
                  (case cuisine_out toolOutput of
                     Some c \<Rightarrow> c
                   | None \<Rightarrow>
                       (case cuisine_st state of
                          None \<Rightarrow> []
                        | Some c \<Rightarrow> filter (\<lambda>s. s \<noteq> []) (map trim (split_str (CHR '','') c)))),
                min_duration_arg = min_duration_st state, sort_arg = sort_st state,
                selected_id_arg = ident\<rparr>]"
    and "widgetState (fst (selectRecipe True window_openai toolOutput state ident w)) =
           state\<lparr>selected_id_st := Value ident\<rparr>"
proof -
  have c: "(case cuisine_st state of
              None \<Rightarrow> []
            | Some c \<Rightarrow> if c \<noteq> [] then filter (\<lambda>s. s \<noteq> []) (map trim (split_str (CHR '','') c)) else [])
         = (case cuisine_st state of
              None \<Rightarrow> []
            | Some c \<Rightarrow> filter (\<lambda>s. s \<noteq> []) (map trim (split_str (CHR '','') c)))"
    by (simp add: trim_Nil split: option.splits)
  show "trace (fst (selectRecipe True window_openai toolOutput state ident w)) =
           trace w @ [StateSet (state\<lparr>selected_id_st := Value ident\<rparr>),
             ToolCalled ''explore_recipe''
               \<lparr>cuisine_arg =
                  (case cuisine_out toolOutput of
                     Some c \<Rightarrow> c
                   | None \<Rightarrow>
                       (case cuisine_st state of
                          None \<Rightarrow> []
                        | Some c \<Rightarrow> filter (\<lambda>s. s \<noteq> []) (map trim (split_str (CHR '','') c)))),
                min_duration_arg = min_duration_st state, sort_arg = sort_st state,
                selected_id_arg = ident\<rparr>]"
    using assms unfolding selectRecipe_def Let_def c
    by (simp add: await_callTool_trace setState_def)
  show "widgetState (fst (selectRecipe True window_openai toolOutput state ident w)) =
           state\<lparr>selected_id_st := Value ident\<rparr>"
    using assms unfolding selectRecipe_def Let_def
    by (simp add: await_callTool_trace setState_def)
qed

lemma selectRecipe_carousel_no_tool:
  "selectRecipe_carousel False window_openai toolOutput state ident w =
     (setState (state\<lparr>selected_id_st := Value ident\<rparr>) w, Returned)"
  by (simp add: selectRecipe_carousel_def Let_def)

lemma selectRecipe_carousel_tool_gone:
  "\<not> canCallTool window_openai \<Longrightarrow>
   selectRecipe_carousel True window_openai toolOutput state ident w =
     (setState (state\<lparr>selected_id_st := Value ident\<rparr>) w, Thrown)"
  by (simp add: selectRecipe_carousel_def Let_def await_callTool_absent)

lemma selectRecipe_carousel_with_tool:
  assumes "canCallTool window_openai"
  shows "\<exists>args. trace (fst (selectRecipe_carousel True window_openai toolOutput state ident w)) =
           trace w @ [StateSet (state\<lparr>selected_id_st := Value ident\<rparr>),
             ToolCalled ''explore_recipe'' args]"
    and "widgetState (fst (selectRecipe_carousel True window_openai toolOutput state ident w)) =
           state\<lparr>selected_id_st := Value ident\<rparr>"
  using assms unfolding selectRecipe_carousel_def Let_def
  by (simp_all add: await_callTool_trace setState_def)

lemma canCallTool_hosts [simp]:
  "canCallTool rejecting_host" "canCallTool accepting_host" "\<not> canCallTool None"
  "\<not> canCallTool (Some \<lparr>callTool_oa = None\<rparr>)"
  by (simp_all add: canCallTool_def rejecting_host_def accepting_host_def)

section \<open>Claims\<close>

subsection \<open>C1: the authoritative selection wins\<close>

text \<open>
  Claim C1. For every result payload whose \<^verbatim>\<open>selected\<close> field is a non-null Recipe \<open>R\<close>,
  the reconciled \<^verbatim>\<open>selected\<close> is \<open>R\<close>, whatever the persisted state (and so whatever
  \<^verbatim>\<open>selected_id\<close>) is.
\<close>
theorem selected_authoritative_wins:
  "selected_out toolOutput = Value R \<Longrightarrow> selected toolOutput state = Some R"
  by (simp add: selected_def)

text \<open>
  C1 at a concrete input: the payload selects \<^verbatim>\<open>r1\<close> while the persisted
  \<^verbatim>\<open>selected_id\<close> is \<^verbatim>\<open>r2\<close>.
\<close>
theorem selected_authoritative_wins_witness:
  "selected (payload_with (Some [''Italian'']) [recipe_with ''r1'' ''A'', recipe_with ''r2'' ''B'']
      (Value (recipe_with ''r1'' ''A''))) (italian_seed\<lparr>selected_id_st := Value ''r2''\<rparr>)
   = Some (recipe_with ''r1'' ''A'')"
  using selected_authoritative_wins
    [of "payload_with (Some [''Italian'']) [recipe_with ''r1'' ''A'', recipe_with ''r2'' ''B'']
          (Value (recipe_with ''r1'' ''A''))" "recipe_with ''r1'' ''A''"
        "italian_seed\<lparr>selected_id_st := Value ''r2''\<rparr>"]
  by (simp add: payload_with_def)

subsection \<open>C2: local lookup by identifier\<close>

text \<open>
  C2 as stated fails for the empty identifier: the lookup is guarded by the truthiness of
  \<^verbatim>\<open>state.selected_id\<close>, and the empty string is falsy. With \<^verbatim>\<open>selected: null\<close>, a
  results list whose only recipe has the identifier \<^verbatim>\<open>""\<close> and \<^verbatim>\<open>selected_id = ""\<close>,
  the reconciled \<^verbatim>\<open>selected\<close> is null although an element of the results has that
  identifier.
\<close>
theorem selected_empty_id_counterexample:
  "selected (payload_with (Some [''Italian'']) [recipe_with [] ''A''] Null)
     (italian_seed\<lparr>selected_id_st := Value []\<rparr>) = None \<and>
   results (payload_with (Some [''Italian'']) [recipe_with [] ''A''] Null) = [recipe_with [] ''A''] \<and>
   id_r (recipe_with [] ''A'') = []"
  by (simp add: selected_def results_def payload_with_def recipe_with_def)

text \<open>
  Claim C2, amended. For every result payload whose \<^verbatim>\<open>selected\<close> field is absent or null
  and every persisted state whose \<^verbatim>\<open>selected_id\<close> is a non-empty string \<open>ident\<close>, the
  reconciled \<^verbatim>\<open>selected\<close> is the first element of the payload's results whose identifier
  equals \<open>ident\<close> (the element with that identifier, when identifiers are unique), and it is
  null when no element has that identifier. The model is a total function: nothing is
  thrown.
\<close>
theorem selected_local_lookup:
  assumes "selected_out toolOutput = Undefined \<or> selected_out toolOutput = Null"
    and "selected_id_st state = Value ident" and "ident \<noteq> []"
  shows "selected toolOutput state = find (\<lambda>s. id_r s = ident) (results toolOutput) \<and>
         ((\<forall>r \<in> set (results toolOutput). id_r r \<noteq> ident) \<longrightarrow> selected toolOutput state = None) \<and>
         (\<forall>r. selected toolOutput state = Some r \<longrightarrow> r \<in> set (results toolOutput) \<and> id_r r = ident) \<and>
         (\<forall>r \<in> set (results toolOutput). distinct (map id_r (results toolOutput)) \<longrightarrow> id_r r = ident \<longrightarrow>
            selected toolOutput state = Some r)"
proof -
  have eq: "selected toolOutput state = find (\<lambda>s. id_r s = ident) (results toolOutput)"
    using assms by (rule selected_fallback)
  have none: "(\<forall>r \<in> set (results toolOutput). id_r r \<noteq> ident) \<longrightarrow>
      selected toolOutput state = None"
    unfolding eq by (simp add: find_None_id)
  have some: "\<forall>r. selected toolOutput state = Some r \<longrightarrow>
      r \<in> set (results toolOutput) \<and> id_r r = ident"
    unfolding eq by (blast dest: find_Some_id)
  have uniq: "\<forall>r \<in> set (results toolOutput). distinct (map id_r (results toolOutput)) \<longrightarrow>
      id_r r = ident \<longrightarrow> selected toolOutput state = Some r"
    unfolding eq by (blast intro: find_distinct_id)
  from eq none some uniq show ?thesis by blast
qed


text \<open>
  C2 (amended) on the scenario of the specification: results \<^verbatim>\<open>r1\<close>, \<^verbatim>\<open>r2\<close>,
  \<^verbatim>\<open>selected: null\<close> and \<^verbatim>\<open>selected_id = "r2"\<close> show \<^verbatim>\<open>r2\<close>.
\<close>
theorem selected_local_lookup_witness:
  "(selected_out (two_results (Some [''Italian''])) = Undefined \<or>
    selected_out (two_results (Some [''Italian''])) = Null) \<and>
   selected_id_st (italian_seed\<lparr>selected_id_st := Value ''r2''\<rparr>) = Value ''r2'' \<and>
   ''r2'' \<noteq> [] \<and>
   selected (two_results (Some [''Italian''])) (italian_seed\<lparr>selected_id_st := Value ''r2''\<rparr>) =
     Some (recipe_with ''r2'' ''B'')"
proof -
  have h1: "selected_out (two_results (Some [''Italian''])) = Undefined \<or>
            selected_out (two_results (Some [''Italian''])) = Null"
    by (simp add: two_results_def payload_with_def)
  have h2: "selected_id_st (italian_seed\<lparr>selected_id_st := Value ''r2''\<rparr>) = Value ''r2''"
    by simp
  have h3: "''r2'' \<noteq> []" by simp
  have "find (\<lambda>s. id_r s = ''r2'') (results (two_results (Some [''Italian'']))) =
        Some (recipe_with ''r2'' ''B'')"
    by (simp add: results_def two_results_def payload_with_def recipe_with_def)
  with selected_local_lookup [OF h1 h2 h3] h1 h2 h3 show ?thesis by simp
qed

subsection \<open>C3: the optimistic update comes first\<close>

text \<open>
  Claim C3. For every call \<^verbatim>\<open>selectRecipe(id)\<close>, in both versions of the function, whatever
  the render saw of the host and whatever the host is when the handler runs, the first effect
  is the update of the persisted state to \<^verbatim>\<open>{...state, selected_id: id}\<close>; the only
  effect that can follow it is the dispatch of one \<^verbatim>\<open>explore_recipe\<close> call, and the
  persisted \<^verbatim>\<open>selected_id\<close> afterwards is \<open>id\<close>. There is no hypothesis on \<open>id\<close> or on
  the results: no existence check precedes the update.
\<close>
theorem selectRecipe_updates_state_first:
  "(\<exists>calls.
      trace (fst (selectRecipe can win out st ident w)) =
        trace w @ StateSet (st\<lparr>selected_id_st := Value ident\<rparr>) # calls \<and>
      (calls = [] \<or> (\<exists>args. calls = [ToolCalled ''explore_recipe'' args]))) \<and>
   selected_id_st (widgetState (fst (selectRecipe can win out st ident w))) = Value ident \<and>
   (\<exists>calls.
      trace (fst (selectRecipe_carousel can' win' out' st ident w')) =
        trace w' @ StateSet (st\<lparr>selected_id_st := Value ident\<rparr>) # calls \<and>
      (calls = [] \<or> (\<exists>args. calls = [ToolCalled ''explore_recipe'' args]))) \<and>
   selected_id_st (widgetState (fst (selectRecipe_carousel can' win' out' st ident w'))) =
     Value ident"
proof -
  have a: "(\<exists>calls.
      trace (fst (selectRecipe can win out st ident w)) =
        trace w @ StateSet (st\<lparr>selected_id_st := Value ident\<rparr>) # calls \<and>
      (calls = [] \<or> (\<exists>args. calls = [ToolCalled ''explore_recipe'' args]))) \<and>
   selected_id_st (widgetState (fst (selectRecipe can win out st ident w))) = Value ident"
  proof (cases can)
    case False
    then show ?thesis by (simp add: selectRecipe_no_tool setState_def)
  next
    case True
    show ?thesis
    proof (cases "canCallTool win")
      case present: True
      from selectRecipe_with_tool [OF present, of out st ident w] True
      show ?thesis by simp
    next
      case False
      with True show ?thesis by (simp add: selectRecipe_tool_gone setState_def)
    qed
  qed
  have b: "(\<exists>calls.
      trace (fst (selectRecipe_carousel can' win' out' st ident w')) =
        trace w' @ StateSet (st\<lparr>selected_id_st := Value ident\<rparr>) # calls \<and>
      (calls = [] \<or> (\<exists>args. calls = [ToolCalled ''explore_recipe'' args]))) \<and>
   selected_id_st (widgetState (fst (selectRecipe_carousel can' win' out' st ident w'))) =
     Value ident"
  proof (cases can')
    case False
    then show ?thesis by (simp add: selectRecipe_carousel_no_tool setState_def)
  next
    case True
    show ?thesis
    proof (cases "canCallTool win'")
      case present: True
      from selectRecipe_carousel_with_tool [OF present, of out' st ident w'] True
      show ?thesis by auto
    next
      case False
      with True show ?thesis by (simp add: selectRecipe_carousel_tool_gone setState_def)
    qed
  qed
  from a b show ?thesis by simp
qed

subsection \<open>C4: no host capability\<close>




subsection \<open>C5: the refresh request\<close>




subsection \<open>C6: failure of the refresh\<close>

text \<open>
  Claim C6. If the remote refresh call dispatched by \<^verbatim>\<open>selectRecipe(id)\<close> rejects, the
  rejection is not caught, the persisted \<^verbatim>\<open>selected_id\<close> stays \<open>id\<close> (the effects are the
  optimistic update followed by the single call: no second state update rolls it back, no
  second call retries), and with an unchanged payload the displayed selection is the one
  of the optimistic state.
\<close>
theorem refresh_failure_keeps_selection:
  assumes "canCallTool (rendered :: string list OpenAi option)"
    and "win = Some oa" and "callTool_oa oa = Some f"
    and "\<forall>args. f ''explore_recipe'' args = Rejected"
  shows "snd (selectRecipe (canCallTool rendered) win out st ident w) = Thrown \<and>
         widgetState (fst (selectRecipe (canCallTool rendered) win out st ident w)) =
           st\<lparr>selected_id_st := Value ident\<rparr> \<and>
         (\<exists>args. trace (fst (selectRecipe (canCallTool rendered) win out st ident w)) =
            trace w @ [StateSet (st\<lparr>selected_id_st := Value ident\<rparr>),
                       ToolCalled ''explore_recipe'' args]) \<and>
         selected out (widgetState (fst (selectRecipe (canCallTool rendered) win out st ident w))) =
           selected out (st\<lparr>selected_id_st := Value ident\<rparr>)"
proof -
  from assms have can: "canCallTool win" by (simp add: canCallTool_def)
  have thrown: "snd (selectRecipe True win out st ident w) = Thrown"
    using assms by (simp add: selectRecipe_def Let_def await_callTool_def)
  from thrown selectRecipe_with_tool [OF can, of out st ident w] assms(1)
  show ?thesis by simp
qed

text \<open>C6 with a host whose \<^verbatim>\<open>callTool\<close> always rejects.\<close>
theorem refresh_failure_keeps_selection_witness:
  "snd (selectRecipe (canCallTool (rejecting_host :: string list OpenAi option)) rejecting_host
          (two_results (Some [''Italian''])) italian_seed ''r2'' (world0 italian_seed)) = Thrown \<and>
   selected_id_st (widgetState (fst (selectRecipe
          (canCallTool (rejecting_host :: string list OpenAi option)) rejecting_host
          (two_results (Some [''Italian''])) italian_seed ''r2'' (world0 italian_seed)))) =
     Value ''r2'' \<and>
   length (dispatched (trace (fst (selectRecipe
          (canCallTool (rejecting_host :: string list OpenAi option)) rejecting_host
          (two_results (Some [''Italian''])) italian_seed ''r2'' (world0 italian_seed))))) = 1"
proof -
  have h0: "canCallTool (rejecting_host :: string list OpenAi option)" by simp
  have h1: "(rejecting_host :: string list OpenAi option) =
            Some \<lparr>callTool_oa = Some (\<lambda>name args. Rejected)\<rparr>"
    by (simp add: rejecting_host_def)
  have h2: "callTool_oa \<lparr>callTool_oa = Some (\<lambda>name (args :: string list CallArgs). Rejected)\<rparr> =
            Some (\<lambda>name args. Rejected)"
    by simp
  have h3: "\<forall>args :: string list CallArgs. (\<lambda>name args. Rejected) ''explore_recipe'' args = Rejected"
    by simp
  from refresh_failure_keeps_selection [OF h0 h1 h2 h3, of "two_results (Some [''Italian''])"
      italian_seed "''r2''" "world0 italian_seed"]
  show ?thesis by (auto simp: world0_def)
qed

subsection \<open>C7: before the first payload\<close>

text \<open>
  Claim C7. When no result payload has arrived yet, the reconciled results are empty and
  the reconciled \<^verbatim>\<open>selected\<close> is null, for every persisted state.
\<close>
theorem no_payload_empty_view:
  "results (toolOutput_of None :: 'c ToolOutput) = [] \<and>
   selected (toolOutput_of None :: 'c ToolOutput) state = None"
  by (simp add: results_def selected_def toolOutput_of_def emptyToolOutput_def)

subsection \<open>C8: the header\<close>

text \<open>
  Claim C8. The header of Widget.tsx is \<^verbatim>\<open>"Recipes in "\<close> followed by the payload's
  cuisines joined with \<^verbatim>\<open>", "\<close> exactly when the cuisine list of the latest payload is
  non-empty, and \<^verbatim>\<open>"RecipeGem"\<close> otherwise. The header is a function of the payload alone:
  with no payload yet it is \<^verbatim>\<open>"RecipeGem"\<close>, whatever the call parameters were (cuisine
  \<^verbatim>\<open>"Italian"\<close> included).
\<close>
theorem header_text:
  assumes "cuisineArr = (case cuisine_out out of None \<Rightarrow> [] | Some c \<Rightarrow> c)"
  shows "(header out = ''Recipes in '' @ join '', '' cuisineArr \<longleftrightarrow> cuisineArr \<noteq> []) \<and>
         (cuisineArr = [] \<longrightarrow> header out = ''RecipeGem'') \<and>
         header (toolOutput_of None) = ''RecipeGem''"
  using assms
  by (auto simp: header_def Let_def toolOutput_of_def emptyToolOutput_def split: option.splits)

text \<open>C8 at payloads with two cuisines and with an empty cuisine list.\<close>
theorem header_text_witness:
  "header (two_results (Some [''Italian'', ''Thai''])) = ''Recipes in Italian, Thai'' \<and>
   header (two_results (Some [])) = ''RecipeGem''"
proof -
  have c: "cuisine_out (two_results (Some [''Italian'', ''Thai''])) = Some [''Italian'', ''Thai'']"
    "cuisine_out (two_results (Some ([] :: string list))) = Some []"
    by (simp_all add: two_results_def payload_with_def)
  have 1: "header (two_results (Some [''Italian'', ''Thai''])) = ''Recipes in Italian, Thai''"
    using header_text [where cuisineArr = "[''Italian'', ''Thai'']"
        and out = "two_results (Some [''Italian'', ''Thai''])"]
    by (simp add: c)
  have 2: "header (two_results (Some [])) = ''RecipeGem''"
    using header_text [where cuisineArr = "[]" and out = "two_results (Some [])"]
    by (simp add: c)
  from 1 2 show ?thesis by simp
qed

subsection \<open>C10: the cuisine list derived from the seeded string\<close>

text \<open>
  Claim C10. In Widget.tsx, when the latest payload supplies no cuisine and the persisted
  cuisine is the string \<open>c\<close>, the cuisine list of the dispatched refresh request is \<open>c\<close>
  split on commas, each entry trimmed, empty entries dropped; no entry of it is empty or
  consists of white space only.
\<close>
theorem seeded_cuisine_list_normalized:
  assumes "cuisine_out out = None" and "cuisine_st st = Some c"
    and "canCallTool (rendered :: string list OpenAi option)" and "canCallTool win"
  shows "\<exists>args.
           dispatched (trace (fst (selectRecipe (canCallTool rendered) win out st ident w))) =
             dispatched (trace w) @ [(''explore_recipe'', args)] \<and>
           cuisine_arg args = filter (\<lambda>s. s \<noteq> []) (map trim (split_str (CHR '','') c)) \<and>
           (\<forall>s \<in> set (cuisine_arg args). s \<noteq> [] \<and> (\<exists>ch \<in> set s. \<not> isWhiteSpace ch))"
proof -
  let ?args = "\<lparr>cuisine_arg = filter (\<lambda>s. s \<noteq> []) (map trim (split_str (CHR '','') c)),
                min_duration_arg = min_duration_st st, sort_arg = sort_st st,
                selected_id_arg = ident\<rparr>"
  have "dispatched (trace (fst (selectRecipe (canCallTool rendered) win out st ident w))) =
          dispatched (trace w) @ [(''explore_recipe'', ?args)]"
    using selectRecipe_with_tool(1) [OF assms(4), of out st ident w] assms(1,2,3)
    by (simp add: dispatched_append)
  moreover have "\<forall>s \<in> set (cuisine_arg ?args). s \<noteq> [] \<and> (\<exists>ch \<in> set s. \<not> isWhiteSpace ch)"
  proof
    fix s
    assume "s \<in> set (cuisine_arg ?args)"
    then have "s \<in> set (filter (\<lambda>s. s \<noteq> []) (map trim (split_str (CHR '','') c)))"
      by simp
    then show "s \<noteq> [] \<and> (\<exists>ch \<in> set s. \<not> isWhiteSpace ch)"
      by (rule cuisineList_entries)
  qed
  moreover have "cuisine_arg ?args = filter (\<lambda>s. s \<noteq> []) (map trim (split_str (CHR '','') c))"
    by simp
  ultimately show ?thesis by blast
qed

text \<open>C10 at the persisted cuisine \<^verbatim>\<open>" Italian ,, Thai,  "\<close>.\<close>
theorem seeded_cuisine_list_normalized_witness:
  "map (cuisine_arg \<circ> snd) (dispatched (trace (fst (selectRecipe
      (canCallTool (accepting_host :: string list OpenAi option)) accepting_host
      (toolOutput_of None) (italian_seed\<lparr>cuisine_st := Some '' Italian ,, Thai,  ''\<rparr>) ''r2''
      (world0 italian_seed)))))
   = [[''Italian'', ''Thai'']]"
proof -
  have h1: "cuisine_out (toolOutput_of None :: string list ToolOutput) = None"
    by (simp add: toolOutput_of_def emptyToolOutput_def)
  have h2: "cuisine_st (italian_seed\<lparr>cuisine_st := Some '' Italian ,, Thai,  ''\<rparr>) =
            Some '' Italian ,, Thai,  ''"
    by simp
  have h3: "canCallTool (accepting_host :: string list OpenAi option)" by simp
  have v: "filter (\<lambda>s. s \<noteq> []) (map trim (split_str (CHR '','') '' Italian ,, Thai,  '')) =
           [''Italian'', ''Thai'']"
    by (simp add: trim_def isWhiteSpace_def)
  from seeded_cuisine_list_normalized [OF h1 h2 h3 h3, of "''r2''" "world0 italian_seed"]
  obtain args where
    d: "dispatched (trace (fst (selectRecipe
          (canCallTool (accepting_host :: string list OpenAi option)) accepting_host
          (toolOutput_of None) (italian_seed\<lparr>cuisine_st := Some '' Italian ,, Thai,  ''\<rparr>) ''r2''
          (world0 italian_seed)))) =
        dispatched (trace (world0 italian_seed)) @ [(''explore_recipe'', args)]"
    and a: "cuisine_arg args =
        filter (\<lambda>s. s \<noteq> []) (map trim (split_str (CHR '','') '' Italian ,, Thai,  ''))"
    by blast
  from a have a': "cuisine_arg args = [''Italian'', ''Thai'']"
    unfolding v .
  show ?thesis unfolding d by (simp add: world0_def a')
qed

end
